theory Spec2Isabelle
  imports Main "HOL-Library.Word" "HOL-Library.Sublist"
begin

section \<open>The parsed command structure\<close>

text \<open>
  Modelled from the spec: the header \<^verbatim>\<open>parse.h\<close> that declares the token enumeration and
  \<^verbatim>\<open>struct cmd_t\<close> is not part of the sources. The constructors are the names
  \<^verbatim>\<open>main.c\<close> uses (\<^verbatim>\<open>Tnil\<close>, \<^verbatim>\<open>Tin\<close>, \<^verbatim>\<open>Tout\<close>, \<^verbatim>\<open>Tapp\<close>, \<^verbatim>\<open>ToutErr\<close>,
  \<^verbatim>\<open>TappErr\<close>, \<^verbatim>\<open>TpipeErr\<close>) plus the plain pipe of the spec's data model
  (none, read from file, truncate, append, both streams truncate or append, pipe to next,
  pipe both streams to next).
\<close>

datatype token = Tnil | Tin | Tout | Tapp | ToutErr | TappErr | Tpipe | TpipeErr

text \<open>
  A \<^verbatim>\<open>Cmd\<close> is a pointer to a \<^verbatim>\<open>struct cmd_t\<close>; the \<^verbatim>\<open>next\<close> pointer is an option
  (\<^verbatim>\<open>NULL\<close> is \<open>None\<close>). The fields are the ones \<^verbatim>\<open>main.c\<close> reads: \<^verbatim>\<open>args\<close>,
  \<^verbatim>\<open>nargs\<close>, \<^verbatim>\<open>in\<close>, \<^verbatim>\<open>out\<close>, \<^verbatim>\<open>infile\<close>, \<^verbatim>\<open>outfile\<close>, \<^verbatim>\<open>next\<close>. The
  argument vector is a list of strings; the C array ends with a \<^verbatim>\<open>NULL\<close> entry, which
  \<open>arg\<close> returns as \<open>None\<close>.
\<close>

datatype cmd_t =
  Cmd_t (args: "string list") (nargs: int) (cin: token) (cout: token)
        (infile: string) (outfile: string) (next_c: "cmd_t option")

definition arg :: "cmd_t \<Rightarrow> nat \<Rightarrow> string option" where
  "arg c i = (if i < length (args c) then Some (args c ! i) else None)"

section \<open>Character classes and number parsing\<close>

definition isdigit :: "char \<Rightarrow> bool" where
  "isdigit ch = (48 \<le> (of_char ch :: nat) \<and> (of_char ch :: nat) \<le> 57)"

definition isspace :: "char \<Rightarrow> bool" where
  "isspace ch = ((of_char ch :: nat) = 32 \<or> (9 \<le> (of_char ch :: nat) \<and> (of_char ch :: nat) \<le> 13))"

text \<open>The \<^verbatim>\<open>while (*str)\<close> loop of \<^verbatim>\<open>is_number\<close>: 0 at the first non-digit, 1 at the end.\<close>

fun is_number_loop :: "string \<Rightarrow> int" where
  "is_number_loop [] = 1"
| "is_number_loop (ch # cs) = (if \<not> isdigit ch then 0 else is_number_loop cs)"

text \<open>\<^verbatim>\<open>is_number\<close>: one leading \<^verbatim>\<open>'-'\<close> is skipped, then the loop runs.\<close>

definition is_number :: "string \<Rightarrow> int" where
  "is_number str =
     (case str of
        [] \<Rightarrow> is_number_loop []
      | ch # cs \<Rightarrow> if ch = CHR ''-'' then is_number_loop cs else is_number_loop (ch # cs))"

text \<open>
  \<^verbatim>\<open>atoi\<close> is the C library's: leading white space is skipped, one sign is read, and the
  digits that follow are accumulated in base ten up to the first other character. The GNU
  library computes \<^verbatim>\<open>(int) strtol (nptr, NULL, 10)\<close>: the value saturates at the bounds
  of a 64-bit \<^verbatim>\<open>long\<close> and is then cut to the 32 bits of an \<^verbatim>\<open>int\<close>.
\<close>

definition digit_val :: "char \<Rightarrow> int" where
  "digit_val ch = int (of_char ch) - 48"

fun digits_value :: "int \<Rightarrow> string \<Rightarrow> int" where
  "digits_value acc [] = acc"
| "digits_value acc (ch # cs) =
     (if isdigit ch then digits_value (acc * 10 + digit_val ch) cs else acc)"

definition strtol10 :: "string \<Rightarrow> int" where
  "strtol10 str =
     (let s = dropWhile isspace str;
          v = (case s of
                 [] \<Rightarrow> 0
               | ch # cs \<Rightarrow>
                   if ch = CHR ''-'' then - digits_value 0 cs
                   else if ch = CHR ''+'' then digits_value 0 cs
                   else digits_value 0 (ch # cs))
      in max (- (2 ^ 63)) (min (2 ^ 63 - 1) v))"

definition atoi :: "string \<Rightarrow> int" where
  "atoi str = sint (word_of_int (strtol10 str) :: 32 word)"

section \<open>The echo and nice built-ins: what they compute\<close>

text \<open>
  \<^verbatim>\<open>exec_echo\<close>: \<^verbatim>\<open>while(c->args[++i] != NULL) printf("%s ", c->args[i]);\<close> starts at
  index 1 and prints every word followed by one space, up to the \<^verbatim>\<open>NULL\<close> that ends the
  vector; \<open>i\<close> is returned with the text, since the newline depends on it (\<^verbatim>\<open>if(i != 1) printf("\n")\<close>).
\<close>

function echo_loop :: "cmd_t \<Rightarrow> nat \<Rightarrow> string \<Rightarrow> nat \<times> string" where
  "echo_loop c i acc =
     (case arg c (i + 1) of
        None \<Rightarrow> (i + 1, acc)
      | Some w \<Rightarrow> echo_loop c (i + 1) (acc @ w @ '' ''))"
  by pat_completeness auto
termination
  by (relation "measure (\<lambda>(c, i, acc). length (args c) - i)")
     (auto simp: arg_def split: if_splits)

definition echo_text :: "cmd_t \<Rightarrow> string" where
  "echo_text c =
     (case echo_loop c 0 [] of
        (i, txt) \<Rightarrow> if i \<noteq> 1 then txt @ [CHR 0x0A] else txt)"

text \<open>
  \<^verbatim>\<open>exec_nice\<close>, up to the call of \<^verbatim>\<open>setpriority\<close>: the priority passed to it and the
  command to launch afterwards (\<^verbatim>\<open>cmd\<close>, \<open>None\<close> for \<^verbatim>\<open>NULL\<close>). Reading \<^verbatim>\<open>c->args[1]\<close>
  when it is \<^verbatim>\<open>NULL\<close> makes \<^verbatim>\<open>is_number\<close> dereference a null pointer: the result is
  \<open>None\<close> then.
\<close>

definition clamp_priority :: "int \<Rightarrow> int" where
  "clamp_priority priority =
     (if priority < - 19 then - 19 else if priority > 20 then 20 else priority)"

definition nice_plan :: "cmd_t \<Rightarrow> (int \<times> string list option) option" where
  "nice_plan c =
     (if nargs c > 1 then
        (case arg c 1 of
           None \<Rightarrow> None
         | Some a1 \<Rightarrow>
             if is_number a1 = 1 then
               Some (clamp_priority (atoi a1),
                     (case arg c 2 of None \<Rightarrow> None | Some _ \<Rightarrow> Some (drop 2 (args c))))
             else Some (4, Some (drop 1 (args c))))
      else Some (4, None))"

text \<open>
  The number a numeric word denotes, as the priority argument of \<^verbatim>\<open>nice\<close> is meant: an
  optional leading minus sign and decimal digits, read as an unbounded integer (0 when
  there is no digit). It is stated apart from \<open>atoi\<close> to compare the two.
\<close>

definition decimal_value :: "string \<Rightarrow> int" where
  "decimal_value str =
     (case str of
        [] \<Rightarrow> 0
      | ch # cs \<Rightarrow>
          if ch = CHR ''-'' then - foldl (\<lambda>v d. v * 10 + digit_val d) 0 cs
          else foldl (\<lambda>v d. v * 10 + digit_val d) 0 (ch # cs))"

section \<open>Processes and descriptor tables\<close>

text \<open>
  What a descriptor refers to. \<open>Std_in\<close>, \<open>Std_out\<close> and \<open>Std_err\<close> are the streams the
  shell was started with; a call of \<^verbatim>\<open>pipe\<close> creates channel number \<open>k\<close> with the two ends
  \<open>Pipe_read k\<close> and \<open>Pipe_write k\<close>; the three file constructors are the three ways
  \<^verbatim>\<open>perform_io_redirect\<close> opens a file.
\<close>

datatype endpoint =
  Std_in | Std_out | Std_err
  | Pipe_read nat | Pipe_write nat
  | File_read string | File_trunc string | File_append string

fun is_pipe_end :: "endpoint \<Rightarrow> bool" where
  "is_pipe_end (Pipe_read k) = True"
| "is_pipe_end (Pipe_write k) = True"
| "is_pipe_end e = False"

fun channel_of :: "endpoint \<Rightarrow> nat option" where
  "channel_of (Pipe_read k) = Some k"
| "channel_of (Pipe_write k) = Some k"
| "channel_of e = None"

text \<open>
  The descriptor table of a process, as the kernel keeps it: an array indexed by the
  descriptor number, \<open>None\<close> for a closed descriptor. A new descriptor is the lowest closed
  number; the table grows by one entry when every number in it is open.
\<close>

type_synonym fdtable = "endpoint option list"

definition fd_get :: "fdtable \<Rightarrow> int \<Rightarrow> endpoint option" where
  "fd_get t fd = (if 0 \<le> fd \<and> nat fd < length t then t ! nat fd else None)"

definition fd_put :: "fdtable \<Rightarrow> nat \<Rightarrow> endpoint \<Rightarrow> fdtable" where
  "fd_put t n e =
     (if n < length t then t[n := Some e]
      else t @ replicate (n - length t) None @ [Some e])"

definition fd_clear :: "fdtable \<Rightarrow> int \<Rightarrow> fdtable" where
  "fd_clear t fd = (if 0 \<le> fd \<and> nat fd < length t then t[nat fd := None] else t)"

fun lowest_free :: "fdtable \<Rightarrow> nat" where
  "lowest_free [] = 0"
| "lowest_free (None # t) = 0"
| "lowest_free (Some e # t) = Suc (lowest_free t)"

text \<open>The channels that have an end open in a table, and the descriptors that are pipe ends.\<close>

definition open_channels :: "fdtable \<Rightarrow> nat set" where
  "open_channels t = {k. Some (Pipe_read k) \<in> set t \<or> Some (Pipe_write k) \<in> set t}"

definition pipe_fds :: "fdtable \<Rightarrow> nat list" where
  "pipe_fds t =
     filter (\<lambda>n. case t ! n of None \<Rightarrow> False | Some e \<Rightarrow> is_pipe_end e) [0..<length t]"

datatype disp = SIG_IGN | SIG_DFL

datatype signame = SIGINT | SIGQUIT | SIGTSTP

text \<open>
  How a process stands: still running the shell's code, ended by \<^verbatim>\<open>exit\<close> with the value
  passed to it, replaced by a program through \<^verbatim>\<open>execvp\<close>, or stopped at a read that C
  leaves undefined (a null pointer handed to \<^verbatim>\<open>strcmp\<close> or \<^verbatim>\<open>is_number\<close>, a field of a
  freshly allocated structure that was never written).
\<close>

datatype pstatus = Running | Exited int | Execed string "string list" | Undef

text \<open>The system calls and library calls a process makes, in order.\<close>

datatype event =
  Ev_signal signame disp
  | Ev_dup int int
  | Ev_dup2 int int
  | Ev_close int
  | Ev_open string endpoint int
  | Ev_pipe int int
  | Ev_pipe_failed
  | Ev_fork int
  | Ev_handler int
  | Ev_write "endpoint option" string
  | Ev_setpriority int
  | Ev_execvp string "string list"
  | Ev_exit int
  | Ev_wait int
  | Ev_kill

text \<open>
  A process: its descriptor table, the shell's globals \<^verbatim>\<open>mypipes\<close>, \<^verbatim>\<open>pipenum\<close> and
  \<^verbatim>\<open>processing_rc\<close> (a child gets a copy at \<^verbatim>\<open>fork\<close>), its signal dispositions, its
  parent, and whether its parent has collected it with \<^verbatim>\<open>wait\<close>. Two fields record
  history and are never read by the code: \<open>trace\<close>, the calls made so far, and \<open>fd_hist\<close>,
  every descriptor table the process has had, newest first.
\<close>

record proc =
  fdt :: fdtable
  fd_hist :: "fdtable list"
  trace :: "event list"
  mypipes :: "nat \<Rightarrow> nat \<Rightarrow> int"
  pipenum :: nat
  processing_rc :: int
  sigs :: "signame \<Rightarrow> disp"
  status :: pstatus
  parent :: "nat option"
  reaped :: bool

text \<open>
  What the program cannot decide: whether a call of \<^verbatim>\<open>pipe\<close> or \<^verbatim>\<open>fork\<close> succeeds (by the
  number of earlier calls), which files can be opened for reading and for writing, the
  error of \<^verbatim>\<open>execvp\<close> for a program name (\<open>None\<close> when the program starts), which of
  several children \<^verbatim>\<open>wait\<close> collects first, the value found in the local \<^verbatim>\<open>child_status\<close>
  that \<^verbatim>\<open>process_pipe\<close> never assigns, and the macro \<^verbatim>\<open>WEXITSTATUS\<close> of the system
  header.
\<close>

datatype errno = EACCES | ENOENT | ENOEXEC

record env =
  pipe_ok :: "nat \<Rightarrow> bool"
  fork_ok :: "nat \<Rightarrow> bool"
  open_in_ok :: "string \<Rightarrow> bool"
  open_out_ok :: "string \<Rightarrow> bool"
  exec_error :: "string \<Rightarrow> errno option"
  wait_pick :: "nat list \<Rightarrow> nat"
  stack_junk :: "32 word"
  wexitstatus :: "32 word \<Rightarrow> int"

text \<open>
  The machine: the process table (a process identifier is an index into it), and the
  numbers of \<^verbatim>\<open>pipe\<close> calls, \<^verbatim>\<open>fork\<close> calls and channels so far.
\<close>

record world =
  procs :: "proc list"
  pipe_calls :: nat
  fork_calls :: nat
  n_chans :: nat

subsection \<open>System calls of one process\<close>

definition emit :: "event \<Rightarrow> proc \<Rightarrow> proc" where
  "emit e p = p\<lparr>trace := trace p @ [e]\<rparr>"

definition set_fdt :: "fdtable \<Rightarrow> proc \<Rightarrow> proc" where
  "set_fdt t p = p\<lparr>fdt := t, fd_hist := t # fd_hist p\<rparr>"

definition sys_close :: "int \<Rightarrow> proc \<Rightarrow> proc" where
  "sys_close fd p = set_fdt (fd_clear (fdt p) fd) (emit (Ev_close fd) p)"

text \<open>\<^verbatim>\<open>dup2\<close> fails, changing nothing, when the old descriptor is not open.\<close>

definition sys_dup2 :: "int \<Rightarrow> int \<Rightarrow> proc \<Rightarrow> proc" where
  "sys_dup2 oldfd newfd p =
     (case fd_get (fdt p) oldfd of
        None \<Rightarrow> emit (Ev_dup2 oldfd newfd) p
      | Some e \<Rightarrow>
          if newfd < 0 then emit (Ev_dup2 oldfd newfd) p
          else set_fdt (fd_put (fdt p) (nat newfd) e) (emit (Ev_dup2 oldfd newfd) p))"

definition sys_dup :: "int \<Rightarrow> proc \<Rightarrow> int \<times> proc" where
  "sys_dup oldfd p =
     (case fd_get (fdt p) oldfd of
        None \<Rightarrow> (- 1, emit (Ev_dup oldfd (- 1)) p)
      | Some e \<Rightarrow>
          (let n = lowest_free (fdt p)
           in (int n, set_fdt (fd_put (fdt p) n e) (emit (Ev_dup oldfd (int n)) p))))"

definition sys_open :: "bool \<Rightarrow> string \<Rightarrow> endpoint \<Rightarrow> proc \<Rightarrow> int \<times> proc" where
  "sys_open ok path e p =
     (if ok then
        (let n = lowest_free (fdt p)
         in (int n, set_fdt (fd_put (fdt p) n e) (emit (Ev_open path e (int n)) p)))
      else (- 1, emit (Ev_open path e (- 1)) p))"

definition sys_exit :: "int \<Rightarrow> proc \<Rightarrow> proc" where
  "sys_exit v p = (emit (Ev_exit v) p)\<lparr>status := Exited v\<rparr>"

definition sys_signal :: "signame \<Rightarrow> disp \<Rightarrow> proc \<Rightarrow> proc" where
  "sys_signal s d p = (emit (Ev_signal s d) p)\<lparr>sigs := (sigs p)(s := d)\<rparr>"

text \<open>\<^verbatim>\<open>printf\<close>: the text goes to whatever descriptor 1 refers to at that moment.\<close>

definition printf :: "string \<Rightarrow> proc \<Rightarrow> proc" where
  "printf txt p = emit (Ev_write (fd_get (fdt p) 1) txt) p"

subsection \<open>System calls that change the process table\<close>

definition on :: "nat \<Rightarrow> (proc \<Rightarrow> proc) \<Rightarrow> world \<Rightarrow> world" where
  "on pid f w = w\<lparr>procs := (procs w)[pid := f (procs w ! pid)]\<rparr>"

definition set_pipe :: "nat \<Rightarrow> nat \<Rightarrow> int \<Rightarrow> proc \<Rightarrow> proc" where
  "set_pipe i j v p = p\<lparr>mypipes := (mypipes p)(i := (mypipes p i)(j := v))\<rparr>"

text \<open>
  \<^verbatim>\<open>pipe(mypipes[i])\<close>: on success the two lowest closed descriptors become the read end
  and the write end of a new channel and are stored in the slot; on failure the slot keeps
  what it held.
\<close>

definition sys_pipe :: "env \<Rightarrow> nat \<Rightarrow> nat \<Rightarrow> world \<Rightarrow> world" where
  "sys_pipe env i me w =
     (let p = procs w ! me in
      if pipe_ok env (pipe_calls w) then
        (let k = n_chans w;
             r = lowest_free (fdt p);
             t1 = fd_put (fdt p) r (Pipe_read k);
             wr = lowest_free t1;
             t2 = fd_put t1 wr (Pipe_write k);
             p' = set_pipe i 1 (int wr) (set_pipe i 0 (int r)
                    (set_fdt t2 (emit (Ev_pipe (int r) (int wr)) p)))
         in w\<lparr>procs := (procs w)[me := p'],
               pipe_calls := Suc (pipe_calls w), n_chans := Suc (n_chans w)\<rparr>)
      else w\<lparr>procs := (procs w)[me := emit Ev_pipe_failed p],
              pipe_calls := Suc (pipe_calls w)\<rparr>)"

text \<open>
  \<^verbatim>\<open>fork\<close>: on success a copy of the caller is appended to the process table and its
  index is returned (the caller sees the child's identifier; the code the child runs is
  applied to that index by the caller of \<open>sys_fork\<close>); on failure the result is \<open>None\<close>
  (\<^verbatim>\<open>fork\<close> returns -1).
\<close>

definition sys_fork :: "env \<Rightarrow> nat \<Rightarrow> world \<Rightarrow> nat option \<times> world" where
  "sys_fork env me w =
     (let p = procs w ! me in
      if fork_ok env (fork_calls w) then
        (let pid = length (procs w);
             child = p\<lparr>fd_hist := [fdt p], trace := [], parent := Some me, reaped := False\<rparr>
         in (Some pid,
             w\<lparr>procs := (procs w)[me := emit (Ev_fork (int pid)) p] @ [child],
               fork_calls := Suc (fork_calls w)\<rparr>))
      else (None,
            w\<lparr>procs := (procs w)[me := emit (Ev_fork (- 1)) p],
              fork_calls := Suc (fork_calls w)\<rparr>))"

text \<open>
  \<^verbatim>\<open>wait\<close> collects one child that has not been collected yet, the one the environment
  picks, and fails with -1 when there is none. (It returns once some child has ended; a
  child that never ends keeps the shell waiting, which the model does not describe.)
\<close>

definition children_of :: "nat \<Rightarrow> world \<Rightarrow> nat list" where
  "children_of me w =
     filter (\<lambda>pid. parent (procs w ! pid) = Some me \<and> \<not> reaped (procs w ! pid))
       [0..<length (procs w)]"

definition sys_wait :: "env \<Rightarrow> nat \<Rightarrow> world \<Rightarrow> world" where
  "sys_wait env me w =
     (case children_of me w of
        [] \<Rightarrow> on me (emit (Ev_wait (- 1))) w
      | k # ks \<Rightarrow>
          (let pid = (k # ks) ! (wait_pick env (k # ks) mod length (k # ks))
           in on me (emit (Ev_wait (int pid))) (on pid (\<lambda>p. p\<lparr>reaped := True\<rparr>) w)))"

section \<open>The shell\<close>

subsection \<open>Redirection\<close>

text \<open>C's \<^verbatim>\<open>!pipenum\<close>.\<close>

definition lnot :: "nat \<Rightarrow> nat" where
  "lnot n = (if n = 0 then 1 else 0)"

definition perform_pipe_redirect :: "cmd_t \<Rightarrow> proc \<Rightarrow> proc" where
  "perform_pipe_redirect c p =
     (let p1 = sys_dup2 (mypipes p (lnot (pipenum p)) 0) 0 p;
          p2 = sys_close (mypipes p (lnot (pipenum p)) 1) p1;
          p3 = sys_dup2 (mypipes p (pipenum p) 1) 1 p2;
          p4 = sys_close (mypipes p (pipenum p) 0) p3
      in if cout c = TpipeErr then sys_dup2 (mypipes p (pipenum p) 1) 2 p4 else p4)"

text \<open>
  The four output cases of \<^verbatim>\<open>perform_io_redirect\<close> differ in the flags of \<^verbatim>\<open>open\<close> and in
  whether descriptor 2 follows descriptor 1; each does nothing when \<^verbatim>\<open>open\<close> fails.
\<close>

definition redirect_out :: "env \<Rightarrow> string \<Rightarrow> endpoint \<Rightarrow> bool \<Rightarrow> proc \<Rightarrow> proc" where
  "redirect_out env path e both p =
     (case sys_open (open_out_ok env path) path e p of
        (output, p1) \<Rightarrow>
          if output \<noteq> - 1 then
            (let p2 = sys_dup2 output 1 p1;
                 p3 = (if both then sys_dup2 output 2 p2 else p2)
             in sys_close output p3)
          else p1)"

definition perform_io_redirect :: "env \<Rightarrow> cmd_t \<Rightarrow> proc \<Rightarrow> proc" where
  "perform_io_redirect env c p =
     (let p1 =
        (if cin c = Tin then
           (case sys_open (open_in_ok env (infile c)) (infile c) (File_read (infile c)) p of
              (input, q) \<Rightarrow>
                if input \<noteq> - 1 then sys_close input (sys_dup2 input 0 q)
                else sys_exit (- 1) q)
         else p)
      in if status p1 \<noteq> Running then p1
         else if cout c \<noteq> Tnil then
           (case cout c of
              Tout \<Rightarrow> redirect_out env (outfile c) (File_trunc (outfile c)) False p1
            | Tapp \<Rightarrow> redirect_out env (outfile c) (File_append (outfile c)) False p1
            | ToutErr \<Rightarrow> redirect_out env (outfile c) (File_trunc (outfile c)) True p1
            | TappErr \<Rightarrow> redirect_out env (outfile c) (File_append (outfile c)) True p1
            | _ \<Rightarrow> p1)
         else p1)"

subsection \<open>Built-in dispatch\<close>

definition builtin_cmd_handle :: "string list" where
  "builtin_cmd_handle =
     [''cd'', ''echo'', ''logout'', ''nice'', ''pwd'', ''setenv'', ''unsetenv'', ''where'']"

fun is_builtin_loop :: "string list \<Rightarrow> int \<Rightarrow> string \<Rightarrow> int" where
  "is_builtin_loop [] i cmd_name = - 1"
| "is_builtin_loop (n # ns) i cmd_name =
     (if n = cmd_name then i else is_builtin_loop ns (i + 1) cmd_name)"

definition is_builtin :: "string \<Rightarrow> int" where
  "is_builtin cmd_name = is_builtin_loop builtin_cmd_handle 0 cmd_name"

definition undef :: "proc \<Rightarrow> proc" where
  "undef p = p\<lparr>status := Undef\<rparr>"

definition exec_echo :: "cmd_t \<Rightarrow> proc \<Rightarrow> proc" where
  "exec_echo c p = (if echo_text c = [] then p else printf (echo_text c) p)"

definition exec_logout :: "cmd_t \<Rightarrow> proc \<Rightarrow> proc" where
  "exec_logout c p = sys_exit 0 p"

subsection \<open>The process launcher\<close>

definition child_signals :: "proc \<Rightarrow> proc" where
  "child_signals p =
     sys_signal SIGTSTP SIG_DFL (sys_signal SIGQUIT SIG_DFL (sys_signal SIGINT SIG_DFL p))"

text \<open>
  \<^verbatim>\<open>execvp\<close> and what follows it in the child: on success the process is the new program;
  on failure a message is printed for two of the errors and the child ends with
  \<^verbatim>\<open>exit(-1)\<close>.
\<close>

definition sys_execvp :: "env \<Rightarrow> cmd_t \<Rightarrow> proc \<Rightarrow> proc" where
  "sys_execvp env c p =
     (case arg c 0 of
        None \<Rightarrow> undef p
      | Some name \<Rightarrow>
          (let p1 = emit (Ev_execvp name (args c)) p in
           case exec_error env name of
             None \<Rightarrow> p1\<lparr>status := Execed name (args c)\<rparr>
           | Some EACCES \<Rightarrow> sys_exit (- 1) (printf (''permission denied'' @ [CHR 0x0A]) p1)
           | Some ENOENT \<Rightarrow> sys_exit (- 1) (printf (''command not found'' @ [CHR 0x0A]) p1)
           | Some _ \<Rightarrow> sys_exit (- 1) p1))"

text \<open>The child of the branch for a user-defined executable, from \<^verbatim>\<open>fork\<close> to its end.\<close>

definition external_child :: "env \<Rightarrow> cmd_t \<Rightarrow> proc \<Rightarrow> proc" where
  "external_child env c p =
     (let p1 = perform_io_redirect env c (perform_pipe_redirect c (child_signals p))
      in if status p1 \<noteq> Running then p1 else sys_execvp env c p1)"

definition launch_external :: "env \<Rightarrow> cmd_t \<Rightarrow> nat \<Rightarrow> world \<Rightarrow> world" where
  "launch_external env c me w =
     (case sys_fork env me w of
        (None, w1) \<Rightarrow> w1
      | (Some pid, w1) \<Rightarrow> on pid (external_child env c) w1)"

text \<open>
  \<^verbatim>\<open>process_cmd(temp)\<close> as \<^verbatim>\<open>exec_nice\<close> calls it: \<^verbatim>\<open>temp\<close> comes from \<^verbatim>\<open>malloc\<close> and only
  its \<^verbatim>\<open>args\<close>, \<^verbatim>\<open>in\<close> and \<^verbatim>\<open>out\<close> are written (the latter two with \<^verbatim>\<open>Tnil\<close>). The
  branch for an executable reads nothing else. The branch for a built-in reads
  \<^verbatim>\<open>temp->next\<close>, which was never written: the model stops there with \<open>Undef\<close>.
\<close>

definition process_cmd_temp :: "env \<Rightarrow> string list \<Rightarrow> nat \<Rightarrow> world \<Rightarrow> world" where
  "process_cmd_temp env cmd me w =
     (case cmd of
        [] \<Rightarrow> on me undef w
      | name # rest \<Rightarrow>
          if name = ''end'' \<and> processing_rc (procs w ! me) = 0 then on me (sys_exit 0) w
          else if is_builtin name \<noteq> - 1 then on me undef w
          else launch_external env (Cmd_t cmd 0 Tnil Tnil [] [] None) me w)"

definition exec_nice :: "env \<Rightarrow> cmd_t \<Rightarrow> nat \<Rightarrow> world \<Rightarrow> world" where
  "exec_nice env c me w =
     (case nice_plan c of
        None \<Rightarrow> on me undef w
      | Some (priority, cmd) \<Rightarrow>
          (let w1 = on me (emit (Ev_setpriority priority)) w in
           case cmd of
             None \<Rightarrow> w1
           | Some a \<Rightarrow> process_cmd_temp env a me w1))"

text \<open>
  \<^verbatim>\<open>builtin_cmd_handle[i].exec_cmd(c)\<close>. The call itself is recorded as \<open>Ev_handler i\<close>.
  \<^verbatim>\<open>echo\<close>, \<^verbatim>\<open>logout\<close> and \<^verbatim>\<open>nice\<close> are modelled; \<^verbatim>\<open>cd\<close>, \<^verbatim>\<open>pwd\<close>, \<^verbatim>\<open>setenv\<close>,
  \<^verbatim>\<open>unsetenv\<close> and \<^verbatim>\<open>where\<close> work on the working directory, the environment variables and
  the file system, touch no descriptor and start no process: of them only the call is
  recorded.
\<close>

definition exec_cmd :: "env \<Rightarrow> int \<Rightarrow> cmd_t \<Rightarrow> nat \<Rightarrow> world \<Rightarrow> world" where
  "exec_cmd env i c me w =
     (let w0 = on me (emit (Ev_handler i)) w in
      if i = 1 then on me (exec_echo c) w0
      else if i = 2 then on me (exec_logout c) w0
      else if i = 3 then exec_nice env c me w0
      else w0)"

definition restore_std :: "int \<Rightarrow> int \<Rightarrow> proc \<Rightarrow> proc" where
  "restore_std saved_stdin saved_stdout p =
     sys_close saved_stdout (sys_close saved_stdin
       (sys_dup2 saved_stdout 1 (sys_dup2 saved_stdin 0 p)))"

text \<open>The branch for a built-in that is last in its pipeline: the shell runs it itself.\<close>

definition builtin_in_shell :: "env \<Rightarrow> int \<Rightarrow> cmd_t \<Rightarrow> nat \<Rightarrow> world \<Rightarrow> world" where
  "builtin_in_shell env i c me w =
     (case sys_dup 0 (procs w ! me) of
        (saved_stdin, p1) \<Rightarrow>
          (case sys_dup 1 p1 of
             (saved_stdout, p2) \<Rightarrow>
               (let p3 = perform_io_redirect env c (perform_pipe_redirect c p2);
                    w3 = w\<lparr>procs := (procs w)[me := p3]\<rparr>
                in if status p3 \<noteq> Running then w3
                   else
                     (let w4 = exec_cmd env i c me w3
                      in if status (procs w4 ! me) \<noteq> Running then w4
                         else on me (restore_std saved_stdin saved_stdout) w4))))"

text \<open>The child of the branch for a built-in with a successor, from \<^verbatim>\<open>fork\<close> to its end.\<close>

definition builtin_child :: "env \<Rightarrow> int \<Rightarrow> cmd_t \<Rightarrow> nat \<Rightarrow> world \<Rightarrow> world" where
  "builtin_child env i c pid w =
     (let w1 = on pid (\<lambda>p. perform_io_redirect env c (perform_pipe_redirect c (child_signals p))) w
      in if status (procs w1 ! pid) \<noteq> Running then w1
         else
           (let w2 = exec_cmd env i c pid w1
            in if status (procs w2 ! pid) \<noteq> Running then w2
               else on pid (sys_exit 0) w2))"

text \<open>
  \<^verbatim>\<open>process_cmd\<close>. The result is the value returned with the machine after the call; the
  only \<^verbatim>\<open>return\<close> of the function returns 0. When the shell has called \<^verbatim>\<open>exit\<close> the
  status of the process says so and the callers stop.
\<close>

definition process_cmd :: "env \<Rightarrow> cmd_t \<Rightarrow> nat \<Rightarrow> world \<Rightarrow> int \<times> world" where
  "process_cmd env c me w =
     (case arg c 0 of
        None \<Rightarrow> (0, on me undef w)
      | Some name \<Rightarrow>
          if name = ''end'' \<and> processing_rc (procs w ! me) = 0 then (0, on me (sys_exit 0) w)
          else
            (let i = is_builtin name in
             if i \<noteq> - 1 then
               (if next_c c = None then (0, builtin_in_shell env i c me w)
                else
                  (case sys_fork env me w of
                     (None, w1) \<Rightarrow> (0, w1)
                   | (Some pid, w1) \<Rightarrow> (0, builtin_child env i c pid w1)))
             else (0, launch_external env c me w)))"

subsection \<open>The pipeline executor\<close>

text \<open>
  A \<^verbatim>\<open>Pipe\<close> is a pointer to a pipeline: its first command and the next pipeline of the
  line. (Modelled from the spec: \<^verbatim>\<open>struct pipe_t\<close> is declared in \<^verbatim>\<open>parse.h\<close>;
  \<^verbatim>\<open>main.c\<close> reads \<^verbatim>\<open>head\<close> and \<^verbatim>\<open>next\<close>.)
\<close>

datatype pipe_t = Pipe_t (head: "cmd_t option") (next_p: "pipe_t option")

text \<open>
  The head of the loop body in \<^verbatim>\<open>process_pipe\<close>, up to the call of \<^verbatim>\<open>process_cmd\<close>: flip
  \<^verbatim>\<open>pipenum\<close>, close what the slot now current still holds, then create a channel into
  it, or, for the last command, store 1 and -1.
\<close>

definition close_stale :: "proc \<Rightarrow> proc" where
  "close_stale p =
     (let p1 = (if mypipes p (pipenum p) 0 \<noteq> 0 then sys_close (mypipes p (pipenum p) 0) p else p)
      in if mypipes p (pipenum p) 1 \<noteq> 1 then sys_close (mypipes p (pipenum p) 1) p1 else p1)"

definition wire_step :: "env \<Rightarrow> cmd_t \<Rightarrow> nat \<Rightarrow> world \<Rightarrow> world" where
  "wire_step env c me w =
     (let w1 = on me (\<lambda>p. p\<lparr>pipenum := lnot (pipenum p)\<rparr>) w;
          w2 = on me close_stale w1
      in if next_c c \<noteq> None then sys_pipe env (pipenum (procs w2 ! me)) me w2
         else on me (\<lambda>p. set_pipe (pipenum p) 0 (- 1) (set_pipe (pipenum p) 1 1 p)) w2)"

text \<open>
  The loop over the commands of one pipeline. The result is \<^verbatim>\<open>no_of_child\<close> and the
  machine. The loop ends at the last command, at a negative result of \<^verbatim>\<open>process_cmd\<close>
  (the \<^verbatim>\<open>break\<close>), and when the shell itself has stopped running.
\<close>

function cmd_loop :: "env \<Rightarrow> cmd_t option \<Rightarrow> nat \<Rightarrow> nat \<Rightarrow> world \<Rightarrow> nat \<times> world" where
  "cmd_loop env None me no_of_child w = (no_of_child, w)"
| "cmd_loop env (Some c) me no_of_child w =
     (case process_cmd env c me (wire_step env c me w) of
        (ret, w') \<Rightarrow>
          if status (procs w' ! me) \<noteq> Running then (no_of_child + 1, w')
          else if ret < 0 then (no_of_child + 1, w')
          else cmd_loop env (next_c c) me (no_of_child + 1) w')"
  by pat_completeness auto
termination
proof (relation "measure (\<lambda>(env, co, me, n, w). size_option size co)")
  show "wf (measure (\<lambda>(env, co, me, n, w). size_option size co))" by simp
next
  fix env :: env and c :: cmd_t and me no_of_child :: nat and w :: world
    and x :: "int \<times> world" and ret :: int and w' :: world
  show "((env, next_c c, me, no_of_child + 1, w'), (env, Some c, me, no_of_child, w))
          \<in> measure (\<lambda>(env, co, me, n, w). size_option size co)"
    by (cases c) simp
qed

text \<open>
  The machine at each call of \<^verbatim>\<open>process_cmd\<close> in that loop, with the command: the same
  loop, collecting the states in which commands are launched.
\<close>

function at_spawn :: "env \<Rightarrow> cmd_t option \<Rightarrow> nat \<Rightarrow> world \<Rightarrow> (cmd_t \<times> world) list" where
  "at_spawn env None me w = []"
| "at_spawn env (Some c) me w =
     (c, wire_step env c me w) #
     (case process_cmd env c me (wire_step env c me w) of
        (ret, w') \<Rightarrow>
          if status (procs w' ! me) \<noteq> Running then []
          else if ret < 0 then []
          else at_spawn env (next_c c) me w')"
  by pat_completeness auto
termination
proof (relation "measure (\<lambda>(env, co, me, w). size_option size co)")
  show "wf (measure (\<lambda>(env, co, me, w). size_option size co))" by simp
next
  fix env :: env and c :: cmd_t and me :: nat and w :: world
    and x :: "int \<times> world" and ret :: int and w' :: world
  show "((env, next_c c, me, w'), (env, Some c, me, w))
          \<in> measure (\<lambda>(env, co, me, w). size_option size co)"
    by (cases c) simp
qed

text \<open>The four closes after the loop.\<close>

definition close_all :: "proc \<Rightarrow> proc" where
  "close_all p =
     (let p1 = (if mypipes p 0 0 \<noteq> 0 then sys_close (mypipes p 0 0) p else p);
          p2 = (if mypipes p 0 1 \<noteq> 1 then sys_close (mypipes p 0 1) p1 else p1);
          p3 = (if mypipes p 1 0 \<noteq> 0 then sys_close (mypipes p 1 0) p2 else p2)
      in if mypipes p 1 1 \<noteq> 1 then sys_close (mypipes p 1 1) p3 else p3)"

text \<open>
  The \<^verbatim>\<open>while(no_of_child--)\<close> loop. \<^verbatim>\<open>wait\<close> is handed the value of \<^verbatim>\<open>child_status\<close>,
  not its address, so the variable keeps the value it happened to have, and the macro is
  applied to that. \<^verbatim>\<open>kill(-0, SIGQUIT)\<close> is recorded as a call only.
\<close>

fun wait_loop :: "env \<Rightarrow> nat \<Rightarrow> nat \<Rightarrow> world \<Rightarrow> world" where
  "wait_loop env 0 me w = w"
| "wait_loop env (Suc no_of_child) me w =
     (let w1 = sys_wait env me w;
          w2 = (if wexitstatus env (stack_junk env) = - 1 then
                  on me (\<lambda>p. emit Ev_kill
                    (printf (''command failed, aborting entire pipeline'' @ [CHR 0x0A]) p)) w1
                else w1)
      in wait_loop env no_of_child me w2)"

text \<open>
  \<^verbatim>\<open>process_pipe\<close>. The globals are reset before the test for \<^verbatim>\<open>NULL\<close>. When the shell has
  stopped running inside the loop over the commands nothing further happens.
\<close>

definition reset_pipes :: "proc \<Rightarrow> proc" where
  "reset_pipes p = p\<lparr>pipenum := 0, mypipes := (\<lambda>i j. - 1)\<rparr>"

definition launch_pipeline :: "env \<Rightarrow> pipe_t \<Rightarrow> nat \<Rightarrow> world \<Rightarrow> nat \<times> world" where
  "launch_pipeline env p me w =
     cmd_loop env (head p) me 0
       (on me (\<lambda>q. set_pipe (pipenum q) 0 0 q) (on me reset_pipes w))"

function process_pipe :: "env \<Rightarrow> pipe_t option \<Rightarrow> nat \<Rightarrow> world \<Rightarrow> world" where
  "process_pipe env None me w = on me reset_pipes w"
| "process_pipe env (Some p) me w =
     (case launch_pipeline env p me w of
        (no_of_child, w1) \<Rightarrow>
          if status (procs w1 ! me) \<noteq> Running then w1
          else process_pipe env (next_p p) me
                 (wait_loop env no_of_child me (on me close_all w1)))"
  by pat_completeness auto
termination
proof (relation "measure (\<lambda>(env, po, me, w). size_option size po)")
  show "wf (measure (\<lambda>(env, po, me, w). size_option size po))" by simp
next
  fix env :: env and p :: pipe_t and me :: nat and w :: world
    and x :: "nat \<times> world" and no_of_child :: nat and w1 :: world
  show "((env, next_p p, me, wait_loop env no_of_child me (on me close_all w1)),
         (env, Some p, me, w)) \<in> measure (\<lambda>(env, po, me, w). size_option size po)"
    by (cases p) simp
qed

text \<open>
  The shell as \<^verbatim>\<open>main\<close> leaves it before the first pipeline: descriptors 0, 1 and 2 are
  the three standard streams, the interrupt and quit signals are ignored, and there is no
  other process.
\<close>

definition shell0 :: "int \<Rightarrow> proc" where
  "shell0 rc =
     \<lparr>fdt = [Some Std_in, Some Std_out, Some Std_err],
      fd_hist = [[Some Std_in, Some Std_out, Some Std_err]],
      trace = [],
      mypipes = (\<lambda>i j. 0),
      pipenum = 0,
      processing_rc = rc,
      sigs = (\<lambda>s. if s = SIGTSTP then SIG_DFL else SIG_IGN),
      status = Running,
      parent = None,
      reaped = False\<rparr>"

definition world0 :: "int \<Rightarrow> world" where
  "world0 rc = \<lparr>procs = [shell0 rc], pipe_calls = 0, fork_calls = 0, n_chans = 0\<rparr>"

text \<open>An environment in which every call succeeds and every program is found.\<close>

definition env_ok :: env where
  "env_ok =
     \<lparr>pipe_ok = (\<lambda>n. True), fork_ok = (\<lambda>n. True),
      open_in_ok = (\<lambda>f. True), open_out_ok = (\<lambda>f. True),
      exec_error = (\<lambda>f. None), wait_pick = (\<lambda>ks. 0),
      stack_junk = 0, wexitstatus = (\<lambda>s. uint (drop_bit 8 (and s 0xff00)))\<rparr>"



section \<open>Auxiliary notions for the properties\<close>




definition env_no_pipe :: env where
  "env_no_pipe = env_ok\<lparr>pipe_ok := (\<lambda>n. False)\<rparr>"

definition env_no_first_fork :: env where
  "env_no_first_fork = env_ok\<lparr>fork_ok := (\<lambda>n. n \<noteq> 0)\<rparr>"

definition simple_cmd :: "string list \<Rightarrow> cmd_t option \<Rightarrow> cmd_t" where
  "simple_cmd a nx =
     Cmd_t a (int (length a)) Tnil (case nx of None \<Rightarrow> Tnil | Some c \<Rightarrow> Tpipe) [] [] nx"



definition ls_wc :: pipe_t where
  "ls_wc = Pipe_t (Some (simple_cmd [''ls''] (Some (simple_cmd [''wc''] None)))) None"

text \<open>Descriptions of single steps, used to state what the shell does.\<close>

text \<open>The copy of a process that \<^verbatim>\<open>fork\<close> makes for the child.\<close>

definition child_copy :: "nat \<Rightarrow> proc \<Rightarrow> proc" where
  "child_copy me p = p\<lparr>fd_hist := [fdt p], trace := [], parent := Some me, reaped := False\<rparr>"

text \<open>What a successful \<^verbatim>\<open>pipe(mypipes[i])\<close> that creates channel \<open>k\<close> does to the caller.\<close>

definition pipe_proc :: "nat \<Rightarrow> nat \<Rightarrow> proc \<Rightarrow> proc" where
  "pipe_proc k i p =
     (let r = lowest_free (fdt p);
          t1 = fd_put (fdt p) r (Pipe_read k);
          wr = lowest_free t1;
          t2 = fd_put t1 wr (Pipe_write k)
      in set_pipe i 1 (int wr) (set_pipe i 0 (int r)
           (set_fdt t2 (emit (Ev_pipe (int r) (int wr)) p))))"

text \<open>
  What \<open>wire_step\<close> does to the shell, given whether \<^verbatim>\<open>pipe\<close> succeeds and the number of
  the channel it would create.
\<close>

definition wire_proc :: "cmd_t \<Rightarrow> bool \<Rightarrow> nat \<Rightarrow> proc \<Rightarrow> proc" where
  "wire_proc c ok k p =
     (let p1 = close_stale (p\<lparr>pipenum := lnot (pipenum p)\<rparr>)
      in if next_c c \<noteq> None then
           (if ok then pipe_proc k (pipenum p1) p1 else emit Ev_pipe_failed p1)
         else set_pipe (pipenum p1) 0 (- 1) (set_pipe (pipenum p1) 1 1 p1))"





text \<open>
  The two descriptors in which \<open>builtin_in_shell\<close> saves the shell's standard input and
  output, and the shell after saving them.
\<close>

definition saved_stdin :: "proc \<Rightarrow> int" where
  "saved_stdin p = fst (sys_dup 0 p)"

definition saved_stdout :: "proc \<Rightarrow> int" where
  "saved_stdout p = fst (sys_dup 1 (snd (sys_dup 0 p)))"




section \<open>Properties of the built-ins\<close>

declare echo_loop.simps [simp del]

lemma echo_loop_eq:
  "echo_loop c i acc =
     (max (i + 1) (length (args c)), acc @ concat (map (\<lambda>w. w @ '' '') (drop (i + 1) (args c))))"
proof (induction c i acc rule: echo_loop.induct)
  case (1 c i acc)
  show ?case
  proof (cases "i + 1 < length (args c)")
    case True
    then have a: "arg c (i + 1) = Some (args c ! (i + 1))" by (simp add: arg_def)
    have d: "drop (i + 1) (args c) = args c ! (i + 1) # drop (i + 1 + 1) (args c)"
      using True by (simp add: Cons_nth_drop_Suc)
    have "echo_loop c i acc = echo_loop c (i + 1) (acc @ args c ! (i + 1) @ '' '')"
      by (subst echo_loop.simps) (simp only: a option.case)
    also have "\<dots> = (max (i + 1 + 1) (length (args c)),
        (acc @ args c ! (i + 1) @ '' '') @ concat (map (\<lambda>w. w @ '' '') (drop (i + 1 + 1) (args c))))"
      by (rule "1.IH" [OF a])
    finally show ?thesis using True by (simp only: d) simp
  next
    case False
    then have a: "arg c (i + 1) = None" by (simp add: arg_def)
    have "echo_loop c i acc = (i + 1, acc)"
      by (subst echo_loop.simps) (simp only: a option.case)
    then show ?thesis using False by simp
  qed
qed

lemma echo_text_eq:
  "echo_text c =
     (if length (args c) \<le> 1 then [] 
      else concat (map (\<lambda>w. w @ '' '') (tl (args c))) @ [CHR 0x0A])"
  by (cases "args c") (auto simp: echo_text_def echo_loop_eq drop_Suc max_def)

lemma is_number_loop_digits: "is_number_loop s = 1 \<longleftrightarrow> (\<forall>ch \<in> set s. isdigit ch)"
  by (induction s) auto

lemma digits_value_foldl:
  "\<forall>ch \<in> set s. isdigit ch \<Longrightarrow> digits_value v s = foldl (\<lambda>v d. v * 10 + digit_val d) v s"
  by (induction s arbitrary: v) auto

lemma not_space_digit: "isdigit ch \<Longrightarrow> \<not> isspace ch"
  by (auto simp: isdigit_def isspace_def)

lemma strtol10_number:
  assumes "is_number a = 1"
  shows "strtol10 a = max (- (2 ^ 63)) (min (2 ^ 63 - 1) (decimal_value a))"
proof (cases a)
  case Nil
  then show ?thesis by (simp add: strtol10_def decimal_value_def)
next
  case (Cons ch cs)
  show ?thesis
  proof (cases "ch = CHR ''-''")
    case True
    have sp: "\<not> isspace ch" using True by (simp add: isspace_def)
    from assms Cons True have "\<forall>x \<in> set cs. isdigit x"
      by (simp add: is_number_def is_number_loop_digits)
    then show ?thesis using Cons True sp
      by (simp add: strtol10_def decimal_value_def digits_value_foldl)
  next
    case False
    from assms Cons False have dg: "\<forall>x \<in> set (ch # cs). isdigit x"
      by (simp add: is_number_def is_number_loop_digits split: if_splits)
    then have sp: "\<not> isspace ch" by (simp add: not_space_digit)
    have plus: "ch \<noteq> CHR ''+''" using dg by (auto simp: isdigit_def)
    have "digits_value 0 (ch # cs) = foldl (\<lambda>v d. v * 10 + digit_val d) 0 (ch # cs)"
      using dg by (rule digits_value_foldl)
    then show ?thesis using Cons False sp plus
      by (simp add: strtol10_def decimal_value_def Let_def)
  qed
qed

lemma atoi_number:
  assumes "is_number a = 1" "- (2 ^ 31) \<le> decimal_value a" "decimal_value a < 2 ^ 31"
  shows "atoi a = decimal_value a"
proof -
  have "strtol10 a = decimal_value a"
    using assms by (simp add: strtol10_number)
  then show ?thesis using assms(2,3)
    by (simp add: atoi_def sint_sbintrunc' signed_take_bit_int_eq_self)
qed

lemma clamp_priority_max_min: "clamp_priority v = max (- 19) (min 20 v)"
  by (simp add: clamp_priority_def)

text \<open>
  Claim C10, as amended: when the parser's word count is right (\<^verbatim>\<open>nargs\<close> is the length
  of the argument vector), a first argument that \<^verbatim>\<open>is_number\<close> accepts and whose number fits
  a 32-bit \<^verbatim>\<open>int\<close> makes \<^verbatim>\<open>nice\<close> apply that number clamped to -19..20; with no
  first argument, or one that \<^verbatim>\<open>is_number\<close> rejects, the priority applied is 4.
\<close>

theorem nice_priority_in_int_range:
  assumes "nargs c = int (length (args c))"
  shows "(\<forall>a. arg c 1 = Some a \<and> is_number a = 1 \<and>
              - (2 ^ 31) \<le> decimal_value a \<and> decimal_value a < 2 ^ 31 \<longrightarrow>
            map_option fst (nice_plan c) = Some (max (- 19) (min 20 (decimal_value a)))) \<and>
         ((arg c 1 = None \<or> (\<exists>a. arg c 1 = Some a \<and> is_number a \<noteq> 1)) \<longrightarrow>
            map_option fst (nice_plan c) = Some 4)"
  using assms
  by (auto simp: nice_plan_def arg_def atoi_number clamp_priority_max_min split: if_splits)

theorem nice_priority_in_int_range_witness:
  "nargs (Cmd_t [''nice'', ''-25''] 2 Tnil Tnil [] [] None) =
     int (length (args (Cmd_t [''nice'', ''-25''] 2 Tnil Tnil [] [] None))) \<and>
   arg (Cmd_t [''nice'', ''-25''] 2 Tnil Tnil [] [] None) 1 = Some ''-25'' \<and>
   is_number ''-25'' = 1 \<and> - (2 ^ 31) \<le> decimal_value ''-25'' \<and> decimal_value ''-25'' < 2 ^ 31 \<and>
   map_option fst (nice_plan (Cmd_t [''nice'', ''-25''] 2 Tnil Tnil [] [] None)) = Some (- 19) \<and>
   nargs (Cmd_t [''nice'', ''+5'', ''ls''] 3 Tnil Tnil [] [] None) =
     int (length (args (Cmd_t [''nice'', ''+5'', ''ls''] 3 Tnil Tnil [] [] None))) \<and>
   arg (Cmd_t [''nice'', ''+5'', ''ls''] 3 Tnil Tnil [] [] None) 1 = Some ''+5'' \<and>
   is_number ''+5'' \<noteq> 1 \<and>
   map_option fst (nice_plan (Cmd_t [''nice'', ''+5'', ''ls''] 3 Tnil Tnil [] [] None)) = Some 4"
proof -
  have n1: "nargs (Cmd_t [''nice'', ''-25''] 2 Tnil Tnil [] [] None) =
     int (length (args (Cmd_t [''nice'', ''-25''] 2 Tnil Tnil [] [] None)))" by simp
  have n2: "nargs (Cmd_t [''nice'', ''+5'', ''ls''] 3 Tnil Tnil [] [] None) =
     int (length (args (Cmd_t [''nice'', ''+5'', ''ls''] 3 Tnil Tnil [] [] None)))" by simp
  have a1: "arg (Cmd_t [''nice'', ''-25''] 2 Tnil Tnil [] [] None) 1 = Some ''-25''"
    by (simp add: arg_def)
  have a2: "arg (Cmd_t [''nice'', ''+5'', ''ls''] 3 Tnil Tnil [] [] None) 1 = Some ''+5''"
    by (simp add: arg_def)
  have i1: "is_number ''-25'' = 1" by (simp add: is_number_def isdigit_def)
  have i2: "is_number ''+5'' \<noteq> 1" by (simp add: is_number_def isdigit_def)
  have d1: "decimal_value ''-25'' = - 25" by (simp add: decimal_value_def digit_val_def)
  show ?thesis
    using nice_priority_in_int_range [OF n1] nice_priority_in_int_range [OF n2] a1 a2 i1 i2 d1
    by simp
qed

text \<open>
  Claim C10 as stated fails where the number does not fit an \<^verbatim>\<open>int\<close>: \<^verbatim>\<open>nice 4294967296\<close>
  is accepted by \<^verbatim>\<open>is_number\<close>, the number clamped to -19..20 is 20, and the priority
  applied is 0.
\<close>

theorem nice_priority_counterexample:
  "is_number ''4294967296'' = 1 \<and> decimal_value ''4294967296'' = 4294967296 \<and>
   max (- 19) (min 20 (decimal_value ''4294967296'')) = 20 \<and>
   map_option fst (nice_plan (Cmd_t [''nice'', ''4294967296''] 2 Tnil Tnil [] [] None)) = Some 0"
  by (simp add: nice_plan_def arg_def is_number_def isdigit_def atoi_def strtol10_def
      isspace_def digit_val_def clamp_priority_def decimal_value_def)

text \<open>
  Claim C9: \<^verbatim>\<open>echo a b c\<close> should write \<^verbatim>\<open>a b c\<close> and a newline, and \<^verbatim>\<open>echo\<close> alone
  nothing. The code writes a space after every word, the last one too: the text for
  \<^verbatim>\<open>echo a b c\<close> is \<^verbatim>\<open>a b c\<close>, a space, and the newline. With no argument nothing is
  written.
\<close>

theorem exec_echo_a_b_c:
  "echo_text (Cmd_t [''echo'', ''a'', ''b'', ''c''] 4 Tnil Tnil [] [] None) = ''a b c '' @ [CHR 0x0A] \<and>
   echo_text (Cmd_t [''echo'', ''a'', ''b'', ''c''] 4 Tnil Tnil [] [] None) \<noteq> ''a b c'' @ [CHR 0x0A] \<and>
   echo_text (Cmd_t [''echo''] 1 Tnil Tnil [] [] None) = []"
  by (simp add: echo_text_eq)

section \<open>Descriptor tables and the process table\<close>

subsection \<open>Descriptor tables\<close>

lemma fd_get_put: "fd_get (fd_put t n e) fd = (if fd = int n then Some e else fd_get t fd)"
  by (auto simp: fd_get_def fd_put_def nth_append nth_list_update)


lemma lowest_free_le: "lowest_free t \<le> length t"
  by (induction t rule: lowest_free.induct) auto



lemma fd_get_neg: "fd < 0 \<Longrightarrow> fd_get t fd = None"
  by (simp add: fd_get_def)

lemma fd_get_Some_nonneg: "fd_get t fd = Some e \<Longrightarrow> 0 \<le> fd"
  by (simp add: fd_get_def split: if_splits)

subsection \<open>The process table\<close>

lemma procs_on: "procs (on pid f w) = (procs w)[pid := f (procs w ! pid)]"
  by (simp add: on_def)


lemma on_same: "pid < length (procs w) \<Longrightarrow> procs (on pid f w) ! pid = f (procs w ! pid)"
  by (simp add: on_def)

lemma on_other: "q \<noteq> pid \<Longrightarrow> procs (on pid f w) ! q = procs w ! q"
  by (simp add: on_def)

lemma on_counters:
  "pipe_calls (on pid f w) = pipe_calls w" "fork_calls (on pid f w) = fork_calls w"
  "n_chans (on pid f w) = n_chans w"
  by (simp_all add: on_def)

section \<open>The wait loop\<close>

lemma nth_list_update_any:
  "xs[i := x] ! j = (if i = j \<and> i < length xs then x else xs ! j)"
  by (cases "i < length xs") (auto simp: nth_list_update list_update_beyond)

lemma sys_wait_trace:
  "me < length (procs w) \<Longrightarrow>
   \<exists>r. trace (procs (sys_wait env me w) ! me) = trace (procs w ! me) @ [Ev_wait r]"
  by (auto simp: sys_wait_def on_def emit_def Let_def nth_list_update_any split: list.splits)

lemma length_procs_sys_wait: "length (procs (sys_wait env me w)) = length (procs w)"
  by (auto simp: sys_wait_def on_def Let_def split: list.splits)

lemma wait_loop_trace:
  assumes "wexitstatus env (stack_junk env) \<noteq> - 1" "me < length (procs w)"
  shows "\<exists>rs. length rs = n \<and>
           trace (procs (wait_loop env n me w) ! me) = trace (procs w ! me) @ map Ev_wait rs"
  using assms(2)
proof (induction n arbitrary: w)
  case 0
  then show ?case by simp
next
  case (Suc n)
  from sys_wait_trace [OF Suc.prems, of env] obtain r where
    r: "trace (procs (sys_wait env me w) ! me) = trace (procs w ! me) @ [Ev_wait r]" ..
  have len: "me < length (procs (sys_wait env me w))"
    using Suc.prems by (simp add: length_procs_sys_wait)
  from Suc.IH [OF len] obtain rs where
    rs: "length rs = n"
      "trace (procs (wait_loop env n me (sys_wait env me w)) ! me) =
        trace (procs (sys_wait env me w) ! me) @ map Ev_wait rs" by blast
  have "length (r # rs) = Suc n \<and>
        trace (procs (wait_loop env (Suc n) me w) ! me) = trace (procs w ! me) @ map Ev_wait (r # rs)"
    using rs r assms(1) by simp
  then show ?case by blast
qed

text \<open>
  Claim C7: the macro \<^verbatim>\<open>WEXITSTATUS\<close> yields an 8-bit value, between 0 and 255. For any
  such macro and any value of \<^verbatim>\<open>child_status\<close> the comparison with -1 is false, so the
  wait loop makes its \<open>n\<close> calls of \<^verbatim>\<open>wait\<close> and nothing else: it never prints the failure
  message and never calls \<^verbatim>\<open>kill\<close>.
\<close>

theorem wait_failure_branch_unreachable:
  assumes "\<forall>s. 0 \<le> wexitstatus env s \<and> wexitstatus env s \<le> 255"
    and "me < length (procs w)"
  shows "wexitstatus env (stack_junk env) \<noteq> - 1 \<and>
         (\<exists>rs. length rs = n \<and>
            trace (procs (wait_loop env n me w) ! me) = trace (procs w ! me) @ map Ev_wait rs) \<and>
         (Ev_kill \<in> set (trace (procs (wait_loop env n me w) ! me)) \<longrightarrow>
            Ev_kill \<in> set (trace (procs w ! me)))"
proof -
  have ne: "wexitstatus env (stack_junk env) \<noteq> - 1"
    using assms(1) [rule_format, of "stack_junk env"] by auto
  from wait_loop_trace [OF ne assms(2), of n] obtain rs where
    rs: "length rs = n"
      "trace (procs (wait_loop env n me w) ! me) = trace (procs w ! me) @ map Ev_wait rs"
    by blast
  then show ?thesis using ne by auto
qed


lemma env_ok_wexitstatus_range: "0 \<le> wexitstatus env_ok s \<and> wexitstatus env_ok s \<le> 255"
proof -
  have "and s 0xff00 \<le> (0xff00 :: 32 word)" by (rule word_and_le1)
  then have "uint (and s 0xff00) \<le> 0xff00" by (simp add: word_le_def)
  then have "uint (and s 0xff00) div 256 \<le> 255" by simp
  then have "wexitstatus env_ok s \<le> 255"
    by (simp add: env_ok_def drop_bit_eq_div uint_div_distrib)
  moreover have "0 \<le> wexitstatus env_ok s" by (simp add: env_ok_def)
  ultimately show ?thesis by simp
qed

theorem wait_failure_branch_unreachable_witness:
  "(\<forall>s. 0 \<le> wexitstatus env_ok s \<and> wexitstatus env_ok s \<le> 255) \<and>
   0 < length (procs (world0 0)) \<and>
   wexitstatus env_ok (stack_junk env_ok) \<noteq> - 1 \<and>
   trace (procs (wait_loop env_ok 2 0 (world0 0)) ! 0) = [Ev_wait (- 1), Ev_wait (- 1)] \<and>
   Ev_kill \<notin> set (trace (procs (wait_loop env_ok 2 0 (world0 0)) ! 0))"
proof -
  have r: "\<forall>s. 0 \<le> wexitstatus env_ok s \<and> wexitstatus env_ok s \<le> 255"
    using env_ok_wexitstatus_range by blast
  have l: "0 < length (procs (world0 0))" by (simp add: world0_def)
  have t: "trace (procs (world0 0) ! 0) = []" by (simp add: world0_def shell0_def)
  have e: "trace (procs (wait_loop env_ok 2 0 (world0 0)) ! 0) = [Ev_wait (- 1), Ev_wait (- 1)]"
    by (simp add: numeral_2_eq_2 world0_def shell0_def sys_wait_def children_of_def on_def
        emit_def env_ok_def Let_def)
  show ?thesis
    using wait_failure_branch_unreachable [OF r l, of 2] r l t e by simp
qed

section \<open>Redirection\<close>

lemmas prim_defs =
  emit_def set_fdt_def sys_close_def sys_dup2_def sys_dup_def sys_open_def sys_exit_def
  sys_signal_def printf_def set_pipe_def undef_def

lemma sys_close_frame:
  "status (sys_close fd p) = status p"
  "mypipes (sys_close fd p) = mypipes p"
  "pipenum (sys_close fd p) = pipenum p"
  "processing_rc (sys_close fd p) = processing_rc p"
  "sigs (sys_close fd p) = sigs p"
  "parent (sys_close fd p) = parent p"
  "reaped (sys_close fd p) = reaped p"
  "trace (sys_close fd p) = trace p @ [Ev_close fd]"
  "fdt (sys_close fd p) = fd_clear (fdt p) fd"
  by (simp_all add: sys_close_def set_fdt_def emit_def)

lemma sys_dup2_frame:
  "status (sys_dup2 a b p) = status p"
  "mypipes (sys_dup2 a b p) = mypipes p"
  "pipenum (sys_dup2 a b p) = pipenum p"
  "processing_rc (sys_dup2 a b p) = processing_rc p"
  "sigs (sys_dup2 a b p) = sigs p"
  "parent (sys_dup2 a b p) = parent p"
  "reaped (sys_dup2 a b p) = reaped p"
  "trace (sys_dup2 a b p) = trace p @ [Ev_dup2 a b]"
  by (simp_all add: sys_dup2_def set_fdt_def emit_def split: option.splits)

lemma perform_pipe_redirect_frame:
  "status (perform_pipe_redirect c p) = status p"
  "mypipes (perform_pipe_redirect c p) = mypipes p"
  "pipenum (perform_pipe_redirect c p) = pipenum p"
  "processing_rc (perform_pipe_redirect c p) = processing_rc p"
  "sigs (perform_pipe_redirect c p) = sigs p"
  "parent (perform_pipe_redirect c p) = parent p"
  "reaped (perform_pipe_redirect c p) = reaped p"
  by (simp_all add: perform_pipe_redirect_def Let_def sys_close_frame sys_dup2_frame)


lemma child_signals_frame:
  "status (child_signals p) = status p"
  "fdt (child_signals p) = fdt p"
  "mypipes (child_signals p) = mypipes p"
  "pipenum (child_signals p) = pipenum p"
  "processing_rc (child_signals p) = processing_rc p"
  "parent (child_signals p) = parent p"
  "reaped (child_signals p) = reaped p"
  "trace (child_signals p) =
     trace p @ [Ev_signal SIGINT SIG_DFL, Ev_signal SIGQUIT SIG_DFL, Ev_signal SIGTSTP SIG_DFL]"
  "sigs (child_signals p) = (\<lambda>s. SIG_DFL)"
  by (auto simp: child_signals_def prim_defs fun_eq_iff intro: signame.exhaust)














lemma child_copy_frame:
  "fdt (child_copy me p) = fdt p"
  "mypipes (child_copy me p) = mypipes p"
  "pipenum (child_copy me p) = pipenum p"
  "processing_rc (child_copy me p) = processing_rc p"
  "status (child_copy me p) = status p"
  "sigs (child_copy me p) = sigs p"
  "trace (child_copy me p) = []"
  "parent (child_copy me p) = Some me"
  "reaped (child_copy me p) = False"
  by (simp_all add: child_copy_def)

lemma sys_fork_ok:
  assumes "fork_ok env (fork_calls w)"
  shows "sys_fork env me w =
           (Some (length (procs w)),
            w\<lparr>procs := (procs w)[me := emit (Ev_fork (int (length (procs w)))) (procs w ! me)]
                          @ [child_copy me (procs w ! me)],
              fork_calls := Suc (fork_calls w)\<rparr>)"
  using assms by (simp add: sys_fork_def child_copy_def Let_def)

lemma sys_fork_fails:
  assumes "\<not> fork_ok env (fork_calls w)"
  shows "sys_fork env me w =
           (None, w\<lparr>procs := (procs w)[me := emit (Ev_fork (- 1)) (procs w ! me)],
                    fork_calls := Suc (fork_calls w)\<rparr>)"
  using assms by (simp add: sys_fork_def Let_def)

lemma launch_external_procs:
  "procs (launch_external env c me w) =
     (if fork_ok env (fork_calls w) then
        (procs w)[me := emit (Ev_fork (int (length (procs w)))) (procs w ! me)]
          @ [external_child env c (child_copy me (procs w ! me))]
      else (procs w)[me := emit (Ev_fork (- 1)) (procs w ! me)])"
  by (simp add: launch_external_def sys_fork_ok sys_fork_fails on_def nth_append list_update_append)

lemma launch_external_counters:
  "pipe_calls (launch_external env c me w) = pipe_calls w"
  "n_chans (launch_external env c me w) = n_chans w"
  "fork_calls (launch_external env c me w) = Suc (fork_calls w)"
  by (simp_all add: launch_external_def sys_fork_def on_def Let_def)

text \<open>A command whose name is neither the end marker nor a built-in.\<close>

lemma process_cmd_external:
  assumes "arg c 0 = Some name" "name \<noteq> ''end''" "is_builtin name = - 1"
  shows "process_cmd env c me w = (0, launch_external env c me w)"
  using assms by (simp add: process_cmd_def)

lemma process_cmd_returns_0: "fst (process_cmd env c me w) = 0"
  by (simp add: process_cmd_def Let_def split: option.splits prod.splits)


section \<open>Channel wiring\<close>

lemma sys_pipe_procs:
  "procs (sys_pipe env i me w) =
     (procs w)[me := (if pipe_ok env (pipe_calls w) then pipe_proc (n_chans w) i (procs w ! me)
                      else emit Ev_pipe_failed (procs w ! me))]"
  by (simp add: sys_pipe_def pipe_proc_def Let_def)

lemma sys_pipe_counters:
  "fork_calls (sys_pipe env i me w) = fork_calls w"
  "pipe_calls (sys_pipe env i me w) = Suc (pipe_calls w)"
  "n_chans (sys_pipe env i me w) = (if pipe_ok env (pipe_calls w) then Suc (n_chans w) else n_chans w)"
  by (simp_all add: sys_pipe_def Let_def)

lemma wire_step_procs:
  assumes "me < length (procs w)"
  shows "procs (wire_step env c me w) =
           (procs w)[me := wire_proc c (pipe_ok env (pipe_calls w)) (n_chans w) (procs w ! me)]"
  using assms
  by (simp add: wire_step_def wire_proc_def Let_def sys_pipe_procs on_def)

lemma wire_step_counters:
  "fork_calls (wire_step env c me w) = fork_calls w"
  "pipe_calls (wire_step env c me w) = (if next_c c \<noteq> None then Suc (pipe_calls w) else pipe_calls w)"
  "n_chans (wire_step env c me w) =
     (if next_c c \<noteq> None \<and> pipe_ok env (pipe_calls w) then Suc (n_chans w) else n_chans w)"
  by (simp_all add: wire_step_def Let_def sys_pipe_counters on_def)

lemma close_stale_frame:
  "status (close_stale p) = status p"
  "mypipes (close_stale p) = mypipes p"
  "pipenum (close_stale p) = pipenum p"
  "processing_rc (close_stale p) = processing_rc p"
  "sigs (close_stale p) = sigs p"
  "parent (close_stale p) = parent p"
  "reaped (close_stale p) = reaped p"
  by (simp_all add: close_stale_def Let_def sys_close_frame)

lemma pipe_proc_frame:
  "status (pipe_proc k i p) = status p"
  "pipenum (pipe_proc k i p) = pipenum p"
  "processing_rc (pipe_proc k i p) = processing_rc p"
  "sigs (pipe_proc k i p) = sigs p"
  "parent (pipe_proc k i p) = parent p"
  "reaped (pipe_proc k i p) = reaped p"
  by (simp_all add: pipe_proc_def Let_def set_pipe_def set_fdt_def emit_def)

lemma wire_proc_frame:
  "status (wire_proc c ok k p) = status p"
  "pipenum (wire_proc c ok k p) = lnot (pipenum p)"
  "processing_rc (wire_proc c ok k p) = processing_rc p"
  "sigs (wire_proc c ok k p) = sigs p"
  "parent (wire_proc c ok k p) = parent p"
  "reaped (wire_proc c ok k p) = reaped p"
  by (simp_all add: wire_proc_def Let_def close_stale_frame pipe_proc_frame set_pipe_def emit_def)



section \<open>Launching commands that are programs\<close>

lemma sys_open_frame:
  "status (snd (sys_open ok path e p)) = status p"
  "mypipes (snd (sys_open ok path e p)) = mypipes p"
  "pipenum (snd (sys_open ok path e p)) = pipenum p"
  "processing_rc (snd (sys_open ok path e p)) = processing_rc p"
  "sigs (snd (sys_open ok path e p)) = sigs p"
  "parent (snd (sys_open ok path e p)) = parent p"
  "reaped (snd (sys_open ok path e p)) = reaped p"
  by (simp_all add: sys_open_def Let_def set_fdt_def emit_def)

lemma sys_open_fst: "fst (sys_open ok path e p) = - 1 \<longleftrightarrow> \<not> ok"
  by (simp add: sys_open_def Let_def)

lemma redirect_out_frame:
  "status (redirect_out env path e both p) = status p"
  "mypipes (redirect_out env path e both p) = mypipes p"
  "pipenum (redirect_out env path e both p) = pipenum p"
  "processing_rc (redirect_out env path e both p) = processing_rc p"
  "sigs (redirect_out env path e both p) = sigs p"
  "parent (redirect_out env path e both p) = parent p"
  "reaped (redirect_out env path e both p) = reaped p"
  by (simp_all add: redirect_out_def Let_def case_prod_beta sys_open_frame sys_dup2_frame
      sys_close_frame)

lemma sys_exit_frame:
  "status (sys_exit v p) = Exited v"
  "fdt (sys_exit v p) = fdt p"
  "fd_hist (sys_exit v p) = fd_hist p"
  "mypipes (sys_exit v p) = mypipes p"
  "pipenum (sys_exit v p) = pipenum p"
  "processing_rc (sys_exit v p) = processing_rc p"
  "sigs (sys_exit v p) = sigs p"
  "parent (sys_exit v p) = parent p"
  "reaped (sys_exit v p) = reaped p"
  "trace (sys_exit v p) = trace p @ [Ev_exit v]"
  by (simp_all add: sys_exit_def emit_def)


lemma perform_io_redirect_status:
  "status (perform_io_redirect env c p) =
     (if cin c = Tin \<and> \<not> open_in_ok env (infile c) then Exited (- 1) else status p)"
  by (simp add: perform_io_redirect_def Let_def case_prod_beta sys_open_frame
      sys_dup2_frame sys_close_frame redirect_out_frame sys_exit_frame sys_open_fst
      split: token.splits)

lemma external_child_status:
  assumes "status p = Running" "arg c 0 = Some name" "exec_error env name = None"
    "cin c \<noteq> Tin \<or> open_in_ok env (infile c)"
  shows "status (external_child env c p) = Execed name (args c)"
  using assms
  by (auto simp: external_child_def Let_def perform_io_redirect_status
      perform_pipe_redirect_frame child_signals_frame sys_execvp_def emit_def)

lemma launch_external_me:
  assumes "me < length (procs w)"
  shows "\<exists>r. procs (launch_external env c me w) ! me = emit (Ev_fork r) (procs w ! me)"
  using assms by (auto simp: launch_external_procs nth_append)

lemma launch_external_length:
  "length (procs (launch_external env c me w)) =
     (if fork_ok env (fork_calls w) then Suc (length (procs w)) else length (procs w))"
  by (simp add: launch_external_procs)

lemma emit_frame:
  "status (emit e p) = status p"
  "fdt (emit e p) = fdt p"
  "fd_hist (emit e p) = fd_hist p"
  "mypipes (emit e p) = mypipes p"
  "pipenum (emit e p) = pipenum p"
  "processing_rc (emit e p) = processing_rc p"
  "sigs (emit e p) = sigs p"
  "parent (emit e p) = parent p"
  "reaped (emit e p) = reaped p"
  "trace (emit e p) = trace p @ [e]"
  by (simp_all add: emit_def)

lemma wire_step_me:
  assumes "me < length (procs w)"
  shows "procs (wire_step env c me w) ! me =
           wire_proc c (pipe_ok env (pipe_calls w)) (n_chans w) (procs w ! me)"
    and "length (procs (wire_step env c me w)) = length (procs w)"
  using assms by (simp_all add: wire_step_procs)

lemma launch_wire_status:
  assumes "me < length (procs w)"
  shows "status (procs (launch_external env c me (wire_step env c me w)) ! me) =
           status (procs w ! me)"
proof -
  have l: "me < length (procs (wire_step env c me w))"
    using assms by (simp add: wire_step_me)
  from launch_external_me [OF l] obtain r where
    "procs (launch_external env c me (wire_step env c me w)) ! me =
       emit (Ev_fork r) (procs (wire_step env c me w) ! me)" ..
  then show ?thesis using assms by (simp add: emit_frame wire_step_me wire_proc_frame)
qed

lemma cmd_loop_external:
  assumes "arg c 0 = Some name" "name \<noteq> ''end''" "is_builtin name = - 1"
    "me < length (procs w)" "status (procs w ! me) = Running"
  shows "cmd_loop env (Some c) me n w =
           cmd_loop env (next_c c) me (n + 1) (launch_external env c me (wire_step env c me w))"
  using assms(4,5)
  by (simp add: process_cmd_external [OF assms(1,2,3)] launch_wire_status)

lemma at_spawn_external:
  assumes "arg c 0 = Some name" "name \<noteq> ''end''" "is_builtin name = - 1"
    "me < length (procs w)" "status (procs w ! me) = Running"
  shows "at_spawn env (Some c) me w =
           (c, wire_step env c me w) #
           at_spawn env (next_c c) me (launch_external env c me (wire_step env c me w))"
  using assms(4,5)
  by (simp add: process_cmd_external [OF assms(1,2,3)] launch_wire_status)

lemma launch_pipeline_start:
  assumes "me < length (procs w)"
  shows "launch_pipeline env p me w =
           cmd_loop env (head p) me 0 (on me (\<lambda>q. set_pipe (pipenum q) 0 0 q) (on me reset_pipes w))"
    and "length (procs (on me (\<lambda>q. set_pipe (pipenum q) 0 0 q) (on me reset_pipes w))) =
           length (procs w)"
    and "status (procs (on me (\<lambda>q. set_pipe (pipenum q) 0 0 q) (on me reset_pipes w)) ! me) =
           status (procs w ! me)"
  using assms by (simp_all add: launch_pipeline_def on_def reset_pipes_def set_pipe_def)

lemma ls_wc_cmds:
  "head ls_wc = Some (simple_cmd [''ls''] (Some (simple_cmd [''wc''] None)))"
  "arg (simple_cmd [''ls''] nx) 0 = Some ''ls''" "arg (simple_cmd [''wc''] nx) 0 = Some ''wc''"
  "is_builtin ''ls'' = - 1" "is_builtin ''wc'' = - 1"
  "next_c (simple_cmd a nx) = nx" "args (simple_cmd a nx) = a"
  "cin (simple_cmd a nx) = Tnil"
  by (simp_all add: ls_wc_def simple_cmd_def arg_def is_builtin_def builtin_cmd_handle_def)

lemma ls_wc_launch:
  assumes "status (procs w ! 0) = Running" "0 < length (procs w)"
  shows "launch_pipeline env ls_wc 0 w =
     (2, launch_external env (simple_cmd [''wc''] None) 0
          (wire_step env (simple_cmd [''wc''] None) 0
            (launch_external env (simple_cmd [''ls''] (Some (simple_cmd [''wc''] None))) 0
              (wire_step env (simple_cmd [''ls''] (Some (simple_cmd [''wc''] None))) 0
                (on 0 (\<lambda>q. set_pipe (pipenum q) 0 0 q) (on 0 reset_pipes w))))))"
proof -
  let ?wi = "on 0 (\<lambda>q. set_pipe (pipenum q) 0 0 q) (on 0 reset_pipes w)"
  let ?ls = "simple_cmd [''ls''] (Some (simple_cmd [''wc''] None))"
  let ?wc = "simple_cmd [''wc''] None"
  let ?w1 = "launch_external env ?ls 0 (wire_step env ?ls 0 ?wi)"
  have i: "0 < length (procs ?wi)" "status (procs ?wi ! 0) = Running"
    using assms by (simp_all add: launch_pipeline_start)
  have s1: "cmd_loop env (Some ?ls) 0 0 ?wi = cmd_loop env (Some ?wc) 0 1 ?w1"
    using cmd_loop_external [of ?ls "''ls''" 0 ?wi env 0] i by (simp add: ls_wc_cmds)
  have j: "0 < length (procs ?w1)" "status (procs ?w1 ! 0) = Running"
    using i by (simp_all add: launch_external_length wire_step_me launch_wire_status)
  have s2: "cmd_loop env (Some ?wc) 0 1 ?w1 =
              cmd_loop env None 0 2 (launch_external env ?wc 0 (wire_step env ?wc 0 ?w1))"
    using cmd_loop_external [of ?wc "''wc''" 0 ?w1 env 1] j by (simp add: ls_wc_cmds)
  show ?thesis
    using assms(2) s1 s2 by (simp add: launch_pipeline_start(1) ls_wc_cmds)
qed


lemma env_facts:
  "pipe_ok env_no_pipe n = False" "fork_ok env_no_pipe n = True"
  "exec_error env_no_pipe f = None"
  "pipe_ok env_no_first_fork n = True" "fork_ok env_no_first_fork n = (n \<noteq> 0)"
  "exec_error env_no_first_fork f = None"
  "pipe_ok env_ok n = True" "fork_ok env_ok n = True" "exec_error env_ok f = None"
  by (simp_all add: env_no_pipe_def env_no_first_fork_def env_ok_def)

lemma world0_facts:
  "procs (world0 rc) = [shell0 rc]" "pipe_calls (world0 rc) = 0" "fork_calls (world0 rc) = 0"
  "n_chans (world0 rc) = 0" "status (shell0 rc) = Running"
  by (simp_all add: world0_def shell0_def)

lemma external_child_copy_status:
  assumes "status p = Running" "args c \<noteq> []" "exec_error env (hd (args c)) = None"
    "cin c \<noteq> Tin"
  shows "status (external_child env c (child_copy me p)) = Execed (hd (args c)) (args c)"
proof -
  have "arg c 0 = Some (hd (args c))"
    using assms(2) by (cases "args c") (simp_all add: arg_def)
  then show ?thesis
    using assms by (simp add: external_child_status child_copy_frame)
qed

lemma set_pipe_frame:
  "status (set_pipe i j v p) = status p"
  "fdt (set_pipe i j v p) = fdt p"
  "fd_hist (set_pipe i j v p) = fd_hist p"
  "pipenum (set_pipe i j v p) = pipenum p"
  "processing_rc (set_pipe i j v p) = processing_rc p"
  "sigs (set_pipe i j v p) = sigs p"
  "parent (set_pipe i j v p) = parent p"
  "reaped (set_pipe i j v p) = reaped p"
  "trace (set_pipe i j v p) = trace p"
  by (simp_all add: set_pipe_def)

lemma reset_pipes_frame:
  "status (reset_pipes p) = status p"
  "fdt (reset_pipes p) = fdt p"
  "fd_hist (reset_pipes p) = fd_hist p"
  "pipenum (reset_pipes p) = 0"
  "mypipes (reset_pipes p) = (\<lambda>i j. - 1)"
  "processing_rc (reset_pipes p) = processing_rc p"
  "sigs (reset_pipes p) = sigs p"
  "parent (reset_pipes p) = parent p"
  "reaped (reset_pipes p) = reaped p"
  "trace (reset_pipes p) = trace p"
  by (simp_all add: reset_pipes_def)

text \<open>
  Claim C8: when \<^verbatim>\<open>pipe\<close> or \<^verbatim>\<open>fork\<close> fails the rest of the pipeline should not be
  launched. \<^verbatim>\<open>process_cmd\<close> returns 0 whatever happens, so the \<^verbatim>\<open>break\<close> of the loop is
  never taken, and the result of \<^verbatim>\<open>pipe\<close> is not looked at. For \<^verbatim>\<open>ls | wc\<close>: when the
  call of \<^verbatim>\<open>pipe\<close> fails (no channel exists afterwards) both commands are still started;
  when the first \<^verbatim>\<open>fork\<close> fails, \<^verbatim>\<open>fork\<close> is called again and \<^verbatim>\<open>wc\<close> is started.
\<close>

theorem pipeline_continues_after_failure:
  "fst (process_cmd env c me w) = 0 \<and>
   (case launch_pipeline env_no_pipe ls_wc 0 (world0 0) of
      (no_of_child, w') \<Rightarrow>
        no_of_child = 2 \<and> pipe_calls w' = 1 \<and> n_chans w' = 0 \<and> fork_calls w' = 2 \<and>
        map status (procs w') = [Running, Execed ''ls'' [''ls''], Execed ''wc'' [''wc'']]) \<and>
   (case launch_pipeline env_no_first_fork ls_wc 0 (world0 0) of
      (no_of_child, w') \<Rightarrow>
        no_of_child = 2 \<and> pipe_calls w' = 1 \<and> n_chans w' = 1 \<and> fork_calls w' = 2 \<and>
        map status (procs w') = [Running, Execed ''wc'' [''wc'']])"
proof -
  have a: "fst (process_cmd env c me w) = 0" by (rule process_cmd_returns_0)
  have s: "status (procs (world0 0) ! 0) = Running" "0 < length (procs (world0 0))"
    by (simp_all add: world0_facts)
  have b: "case launch_pipeline env_no_pipe ls_wc 0 (world0 0) of
      (no_of_child, w') \<Rightarrow>
        no_of_child = 2 \<and> pipe_calls w' = 1 \<and> n_chans w' = 0 \<and> fork_calls w' = 2 \<and>
        map status (procs w') = [Running, Execed ''ls'' [''ls''], Execed ''wc'' [''wc'']]"
    by (simp add: ls_wc_launch [OF s] launch_external_counters wire_step_counters on_counters
        launch_external_procs wire_step_procs on_def env_facts world0_facts ls_wc_cmds
        emit_frame wire_proc_frame external_child_copy_status nth_append set_pipe_frame
        reset_pipes_frame)
  have c: "case launch_pipeline env_no_first_fork ls_wc 0 (world0 0) of
      (no_of_child, w') \<Rightarrow>
        no_of_child = 2 \<and> pipe_calls w' = 1 \<and> n_chans w' = 1 \<and> fork_calls w' = 2 \<and>
        map status (procs w') = [Running, Execed ''wc'' [''wc'']]"
    by (simp add: ls_wc_launch [OF s] launch_external_counters wire_step_counters on_counters
        launch_external_procs wire_step_procs on_def env_facts world0_facts ls_wc_cmds
        emit_frame wire_proc_frame external_child_copy_status nth_append set_pipe_frame
        reset_pipes_frame)
  show ?thesis using a b c by blast
qed

section \<open>Descriptors through redirection\<close>

lemma fdt_sys_dup2:
  "fd_get (fdt (sys_dup2 a b p)) fd =
     (case fd_get (fdt p) a of
        None \<Rightarrow> fd_get (fdt p) fd
      | Some e \<Rightarrow> if 0 \<le> b \<and> fd = b then Some e else fd_get (fdt p) fd)"
  by (auto simp: sys_dup2_def set_fdt_def emit_def fd_get_put split: option.splits)





lemma fdt_sys_dup2_target:
  "fd_get (fdt p) a = Some e \<Longrightarrow> 0 \<le> b \<Longrightarrow> fd_get (fdt (sys_dup2 a b p)) b = Some e"
  by (simp add: fdt_sys_dup2)





section \<open>What a handler does to the process table\<close>












section \<open>A built-in run by the shell itself\<close>








section \<open>Handlers: status and the other processes\<close>








section \<open>The decision table of the process launcher\<close>

























end
